theory Spec2Isabelle
  imports Complex_Main
begin

section \<open>The device\<close>

text \<open>
  Every class of the library drives one WebGL2 context (\<open>this.gl\<close>). The context is a
  collaborator outside the repository, so the model assumes nothing about how it reacts:
  a device is the sequence of entry points invoked on it so far, in program order, together
  with the answers it gives to the three queries the library makes, each answer being a
  function of the calls made before the query. A JavaScript \<open>number\<close> is a \<open>real\<close>: the
  library stores and forwards numbers, and its only arithmetic is the addition and
  subtraction of \<open>TEXTURE0\<close>. Members of the \<open>const enum\<close>s are the numeric codes of
  \<open>WebGLConstant.ts\<close>; handles of device objects are natural numbers.
\<close>

type_synonym number = real

datatype gl_value =
    GLNumber number
  | GLBoolean bool
  | GLNumbers "number list"
  | GLBooleans "bool list"

text \<open>
  \<open>Buffer\<close> and \<open>AttributeValue\<close> are imported by \<open>Attribute\<close> and declared elsewhere. Of a
  buffer the model keeps the device handle (\<open>internal\<close>). An \<open>AttributeValue\<close> is an object
  with a \<open>buffer\<close> field next to the optional fields of the pointer description (number of
  components, data type, normalization, stride, offset).
\<close>

record Buffer =
  internal :: nat

record AttributeValue =
  buffer :: Buffer
  components :: "number option"
  data_type :: "nat option"
  normalized :: "bool option"
  stride :: "number option"
  offset :: "number option"

datatype gl_call =
    GetParameter nat
  | IsEnabled nat
  | GetAttribLocation nat string
  | EnableVertexAttribArray number
  | DisableVertexAttribArray number
  | BindBuffer nat nat
  | VertexAttribPointer number AttributeValue
  | UniformMatrix4fv nat bool "number list" "number option" "number option"
  | UniformMatrix4x3fv nat bool "number list" "number option" "number option"
  | Uniform3iv nat "number list" "number option" "number option"
  | Uniform2uiv nat "number list" "number option" "number option"
  | Uniform2fv nat "number list" "number option" "number option"
  | ActiveTexture number
  | BindTexture nat nat
  | TexImage2D_sized nat number nat number number number nat nat nat
  | TexImage2D_unsized nat number nat nat nat nat
  | DepthFunc gl_value
  | Viewport number number number number
  | StencilFuncSeparate nat gl_value gl_value gl_value
  | StencilMaskSeparate nat gl_value

record device =
  parameter_answer :: "gl_call list \<Rightarrow> nat \<Rightarrow> gl_value"
  enabled_answer :: "gl_call list \<Rightarrow> nat \<Rightarrow> bool"
  location_answer :: "gl_call list \<Rightarrow> nat \<Rightarrow> string \<Rightarrow> number"
  calls :: "gl_call list"

definition issue :: "gl_call \<Rightarrow> device \<Rightarrow> device" where
  "issue c d = d\<lparr>calls := calls d @ [c]\<rparr>"

definition getParameter :: "nat \<Rightarrow> device \<Rightarrow> gl_value \<times> device" where
  "getParameter pname d = (parameter_answer d (calls d) pname, issue (GetParameter pname) d)"

definition isEnabled :: "nat \<Rightarrow> device \<Rightarrow> bool \<times> device" where
  "isEnabled cap d = (enabled_answer d (calls d) cap, issue (IsEnabled cap) d)"

definition getAttribLocation :: "nat \<Rightarrow> string \<Rightarrow> device \<Rightarrow> number \<times> device" where
  "getAttribLocation program nm d =
     (location_answer d (calls d) program nm, issue (GetAttribLocation program nm) d)"

text \<open>The calls that only read the device.\<close>

definition is_query :: "gl_call \<Rightarrow> bool" where
  "is_query c =
     (case c of
        GetParameter _ \<Rightarrow> True
      | IsEnabled _ \<Rightarrow> True
      | GetAttribLocation _ _ \<Rightarrow> True
      | _ \<Rightarrow> False)"

definition queries :: "device \<Rightarrow> nat" where
  "queries d = length (filter is_query (calls d))"

definition is_pointer_call :: "gl_call \<Rightarrow> bool" where
  "is_pointer_call c = (case c of VertexAttribPointer _ _ \<Rightarrow> True | _ \<Rightarrow> False)"

definition is_upload :: "gl_call \<Rightarrow> bool" where
  "is_upload c =
     (case c of
        TexImage2D_sized _ _ _ _ _ _ _ _ _ \<Rightarrow> True
      | TexImage2D_unsized _ _ _ _ _ _ \<Rightarrow> True
      | _ \<Rightarrow> False)"

section \<open>Constants of \<open>WebGLConstant.ts\<close>\<close>

definition FRONT :: nat where
  "FRONT = 0x0404"

definition BACK :: nat where
  "BACK = 0x0405"

definition ARRAY_BUFFER :: nat where
  "ARRAY_BUFFER = 0x8892"

definition TEXTURE0 :: nat where
  "TEXTURE0 = 0x84c0"

definition TEXTURE_2D :: nat where
  "TEXTURE_2D = 0x0de1"

definition ALWAYS :: nat where
  "ALWAYS = 0x0207"

definition SCISSOR_BOX :: nat where
  "SCISSOR_BOX = 0x0c10"

definition VIEWPORT :: nat where
  "VIEWPORT = 0x0ba2"

definition ACTIVE_TEXTURE :: nat where
  "ACTIVE_TEXTURE = 0x84e0"

definition BLEND_COLOR :: nat where
  "BLEND_COLOR = 0x8005"

definition BLEND_EQUATION_RGB :: nat where
  "BLEND_EQUATION_RGB = 0x8009"

definition BLEND_EQUATION_ALPHA :: nat where
  "BLEND_EQUATION_ALPHA = 0x883d"

definition BLEND_SRC_RGB :: nat where
  "BLEND_SRC_RGB = 0x80c9"

definition BLEND_DST_RGB :: nat where
  "BLEND_DST_RGB = 0x80c8"

definition BLEND_SRC_ALPHA :: nat where
  "BLEND_SRC_ALPHA = 0x80cb"

definition BLEND_DST_ALPHA :: nat where
  "BLEND_DST_ALPHA = 0x80ca"

definition COLOR_CLEAR_VALUE :: nat where
  "COLOR_CLEAR_VALUE = 0x0c22"

definition DEPTH_CLEAR_VALUE :: nat where
  "DEPTH_CLEAR_VALUE = 0x0b73"

definition STENCIL_CLEAR_VALUE :: nat where
  "STENCIL_CLEAR_VALUE = 0x0b91"

definition COLOR_WRITEMASK :: nat where
  "COLOR_WRITEMASK = 0x0c23"

definition CULL_FACE_MODE :: nat where
  "CULL_FACE_MODE = 0x0b45"

definition DEPTH_FUNC :: nat where
  "DEPTH_FUNC = 0x0b74"

definition DEPTH_WRITEMASK :: nat where
  "DEPTH_WRITEMASK = 0x0b72"

definition DEPTH_RANGE :: nat where
  "DEPTH_RANGE = 0x0b70"

definition FRONT_FACE :: nat where
  "FRONT_FACE = 0x0b46"

definition GENERATE_MIPMAP_HINT :: nat where
  "GENERATE_MIPMAP_HINT = 0x8192"

definition FRAGMENT_SHADER_DERIVATIVE_HINT :: nat where
  "FRAGMENT_SHADER_DERIVATIVE_HINT = 0x8b8b"

definition LINE_WIDTH :: nat where
  "LINE_WIDTH = 0x0b21"

definition PACK_ALIGNMENT :: nat where
  "PACK_ALIGNMENT = 0x0d05"

definition UNPACK_ALIGNMENT :: nat where
  "UNPACK_ALIGNMENT = 0x0cf5"

definition UNPACK_FLIP_Y_WEBGL :: nat where
  "UNPACK_FLIP_Y_WEBGL = 0x9240"

definition UNPACK_PREMULTIPLY_ALPHA_WEBGL :: nat where
  "UNPACK_PREMULTIPLY_ALPHA_WEBGL = 0x9241"

definition UNPACK_COLORSPACE_CONVERSION_WEBGL :: nat where
  "UNPACK_COLORSPACE_CONVERSION_WEBGL = 0x9243"

definition PACK_ROW_LENGTH :: nat where
  "PACK_ROW_LENGTH = 0x0d02"

definition PACK_SKIP_PIXELS :: nat where
  "PACK_SKIP_PIXELS = 0x0d04"

definition PACK_SKIP_ROWS :: nat where
  "PACK_SKIP_ROWS = 0x0d03"

definition UNPACK_ROW_LENGTH :: nat where
  "UNPACK_ROW_LENGTH = 0x0cf2"

definition UNPACK_IMAGE_HEIGHT :: nat where
  "UNPACK_IMAGE_HEIGHT = 0x806e"

definition UNPACK_SKIP_PIXELS :: nat where
  "UNPACK_SKIP_PIXELS = 0x0cf4"

definition UNPACK_SKIP_ROWS :: nat where
  "UNPACK_SKIP_ROWS = 0x0cf3"

definition UNPACK_SKIP_IMAGES :: nat where
  "UNPACK_SKIP_IMAGES = 0x806d"

definition POLYGON_OFFSET_FACTOR :: nat where
  "POLYGON_OFFSET_FACTOR = 0x8038"

definition POLYGON_OFFSET_UNITS :: nat where
  "POLYGON_OFFSET_UNITS = 0x2a00"

definition SAMPLE_COVERAGE_VALUE :: nat where
  "SAMPLE_COVERAGE_VALUE = 0x80aa"

definition SAMPLE_COVERAGE_INVERT :: nat where
  "SAMPLE_COVERAGE_INVERT = 0x80ab"

definition STENCIL_FUNC :: nat where
  "STENCIL_FUNC = 0x0b92"

definition STENCIL_REF :: nat where
  "STENCIL_REF = 0x0b97"

definition STENCIL_VALUE_MASK :: nat where
  "STENCIL_VALUE_MASK = 0x0b93"

definition STENCIL_BACK_FUNC :: nat where
  "STENCIL_BACK_FUNC = 0x8800"

definition STENCIL_BACK_REF :: nat where
  "STENCIL_BACK_REF = 0x8ca3"

definition STENCIL_BACK_VALUE_MASK :: nat where
  "STENCIL_BACK_VALUE_MASK = 0x8ca4"

definition STENCIL_WRITEMASK :: nat where
  "STENCIL_WRITEMASK = 0x0b98"

definition STENCIL_BACK_WRITEMASK :: nat where
  "STENCIL_BACK_WRITEMASK = 0x8ca5"

definition STENCIL_FAIL :: nat where
  "STENCIL_FAIL = 0x0b94"

definition STENCIL_PASS_DEPTH_FAIL :: nat where
  "STENCIL_PASS_DEPTH_FAIL = 0x0b95"

definition STENCIL_PASS_DEPTH_PASS :: nat where
  "STENCIL_PASS_DEPTH_PASS = 0x0b96"

definition STENCIL_BACK_FAIL :: nat where
  "STENCIL_BACK_FAIL = 0x8801"

definition STENCIL_BACK_PASS_DEPTH_FAIL :: nat where
  "STENCIL_BACK_PASS_DEPTH_FAIL = 0x8802"

definition STENCIL_BACK_PASS_DEPTH_PASS :: nat where
  "STENCIL_BACK_PASS_DEPTH_PASS = 0x8803"

definition BLEND :: nat where
  "BLEND = 0x0be2"

definition CULL_FACE :: nat where
  "CULL_FACE = 0x0b44"

definition DEPTH_TEST :: nat where
  "DEPTH_TEST = 0x0b71"

definition DITHER :: nat where
  "DITHER = 0x0bd0"

definition POLYGON_OFFSET_FILL :: nat where
  "POLYGON_OFFSET_FILL = 0x8037"

definition SAMPLE_ALPHA_TO_COVERAGE :: nat where
  "SAMPLE_ALPHA_TO_COVERAGE = 0x809e"

definition SAMPLE_COVERAGE :: nat where
  "SAMPLE_COVERAGE = 0x80a0"

definition SCISSOR_TEST :: nat where
  "SCISSOR_TEST = 0x0c11"

definition STENCIL_TEST :: nat where
  "STENCIL_TEST = 0x0b90"

definition RASTERIZER_DISCARD :: nat where
  "RASTERIZER_DISCARD = 0x8c89"

definition RGB :: nat where
  "RGB = 0x1907"

definition RGBA :: nat where
  "RGBA = 0x1908"

definition LUMINANCE_ALPHA :: nat where
  "LUMINANCE_ALPHA = 0x190a"

definition LUMINANCE :: nat where
  "LUMINANCE = 0x1909"

definition ALPHA :: nat where
  "ALPHA = 0x1906"

definition R8 :: nat where
  "R8 = 0x8229"

definition R8UI :: nat where
  "R8UI = 0x8232"

definition RG8 :: nat where
  "RG8 = 0x822b"

definition RG8UI :: nat where
  "RG8UI = 0x8238"

definition RGB8 :: nat where
  "RGB8 = 0x8051"

definition SRGB8 :: nat where
  "SRGB8 = 0x8c41"

definition RGB565 :: nat where
  "RGB565 = 0x8d62"

definition RGB8UI :: nat where
  "RGB8UI = 0x8d7d"

definition RGBA8 :: nat where
  "RGBA8 = 0x8058"

definition SRGB8_ALPHA8 :: nat where
  "SRGB8_ALPHA8 = 0x8c43"

definition RGB5_A1 :: nat where
  "RGB5_A1 = 0x8057"

definition RGBA4 :: nat where
  "RGBA4 = 0x8056"

definition RGBA8UI :: nat where
  "RGBA8UI = 0x8d7c"

definition R16F :: nat where
  "R16F = 0x822d"

definition R32F :: nat where
  "R32F = 0x822e"

definition RG16F :: nat where
  "RG16F = 0x822f"

definition RG32F :: nat where
  "RG32F = 0x8230"

definition R11F_G11F_B10F :: nat where
  "R11F_G11F_B10F = 0x8c3a"

definition RGB9_E5 :: nat where
  "RGB9_E5 = 0x8c3d"

definition RGB16F :: nat where
  "RGB16F = 0x881b"

definition RGB32F :: nat where
  "RGB32F = 0x8815"

definition RGBA16F :: nat where
  "RGBA16F = 0x881a"

definition RGBA32F :: nat where
  "RGBA32F = 0x8814"

definition RGB10_A2 :: nat where
  "RGB10_A2 = 0x8059"

definition RED :: nat where
  "RED = 0x1903"

definition RED_INTEGER :: nat where
  "RED_INTEGER = 0x8d94"

definition RG :: nat where
  "RG = 0x8227"

definition RG_INTEGER :: nat where
  "RG_INTEGER = 0x8228"

definition RGB_INTEGER :: nat where
  "RGB_INTEGER = 0x8d98"

definition RGBA_INTEGER :: nat where
  "RGBA_INTEGER = 0x8d99"

definition UNSIGNED_BYTE :: nat where
  "UNSIGNED_BYTE = 0x1401"

definition FLOAT :: nat where
  "FLOAT = 0x1406"

definition UNSIGNED_INT_2_10_10_10_REV :: nat where
  "UNSIGNED_INT_2_10_10_10_REV = 0x8368"

section \<open>Attribute\<close>

record WebGLActiveInfo =
  name :: string
  info_size :: number
  info_type :: nat

record Attribute =
  activeInfo :: WebGLActiveInfo
  location :: number
  enabledCache :: "bool option"
  valueCache :: "AttributeValue option"

text \<open>
  The constructor asks the device once for the location of the attribute's name in the
  program (\<open>program.internal\<close> is the program's handle) and leaves both caches undefined.
\<close>

definition Attribute_new :: "nat \<Rightarrow> WebGLActiveInfo \<Rightarrow> device \<Rightarrow> Attribute \<times> device" where
  "Attribute_new program_internal info d =
     (case getAttribLocation program_internal (name info) d of
        (loc, d1) \<Rightarrow>
          (\<lparr>activeInfo = info, location = loc, enabledCache = None, valueCache = None\<rparr>, d1))"

text \<open>\<^verbatim>\<open>get enabled() { return (this.enabledCache ??= false); }\<close>\<close>

definition get_enabled :: "Attribute \<Rightarrow> device \<Rightarrow> bool \<times> Attribute \<times> device" where
  "get_enabled a d =
     (case enabledCache a of
        Some b \<Rightarrow> (b, a, d)
      | None \<Rightarrow> (False, a\<lparr>enabledCache := Some False\<rparr>, d))"

definition set_enabled :: "bool \<Rightarrow> Attribute \<Rightarrow> device \<Rightarrow> Attribute \<times> device" where
  "set_enabled v a d =
     (case get_enabled a d of
        (cur, a1, d1) \<Rightarrow>
          if cur = v then (a1, d1)
          else
            (a1\<lparr>enabledCache := Some v\<rparr>,
             (if v then issue (EnableVertexAttribArray (location a1)) d1
              else issue (DisableVertexAttribArray (location a1)) d1)))"

text \<open>
  Modelled from the spec: \<open>Buffer.bind\<close>, whose class is not among the sources. The spec has
  it bind the resource's device handle to the given binding point, with no client-side
  record of the current binding.
\<close>

definition Buffer_bind :: "Buffer \<Rightarrow> nat \<Rightarrow> device \<Rightarrow> device" where
  "Buffer_bind b target_point d = issue (BindBuffer target_point (internal b)) d"

text \<open>
  Modelled from the spec: \<open>setterInternal\<close>, abstract in \<open>Attribute\<close>, whose concrete
  subclasses are not among the sources. The spec has it issue the one device call that
  describes stride, offset, type and normalization for this location (the source's comment
  names \<open>vertexAttribPointer\<close> and \<open>vertexAttribIPointer\<close>).
\<close>

definition setterInternal :: "Attribute \<Rightarrow> AttributeValue \<Rightarrow> device \<Rightarrow> device" where
  "setterInternal a v d = issue (VertexAttribPointer (location a) v) d"

text \<open>
  The setter of \<open>value\<close> takes an \<open>AttributeValue\<close> or a bare \<open>Buffer\<close>; the test
  \<^verbatim>\<open>"buffer" in value\<close> tells them apart, and a bare buffer is wrapped as
  \<^verbatim>\<open>{ buffer: value }\<close>.
\<close>

datatype AttributeInput =
    Described AttributeValue
  | Bare Buffer

definition realValue :: "AttributeInput \<Rightarrow> AttributeValue" where
  "realValue v =
     (case v of
        Described av \<Rightarrow> av
      | Bare b \<Rightarrow>
          \<lparr>buffer = b, components = None, data_type = None, normalized = None,
           stride = None, offset = None\<rparr>)"

definition get_value :: "Attribute \<Rightarrow> device \<Rightarrow> AttributeValue option \<times> device" where
  "get_value a d = (valueCache a, d)"

definition set_value :: "AttributeInput \<Rightarrow> Attribute \<Rightarrow> device \<Rightarrow> Attribute \<times> device" where
  "set_value v a d =
     (case set_enabled True a d of
        (a1, d1) \<Rightarrow>
          let rv = realValue v;
              d2 = Buffer_bind (buffer rv) ARRAY_BUFFER d1;
              d3 = setterInternal a1 rv d2
          in (a1\<lparr>valueCache := Some rv\<rparr>, d3))"

section \<open>Uniforms\<close>

text \<open>
  The concrete uniform classes among the sources. Each overrides the one method that
  uploads an iterable value (\<open>arraySetter\<close> in the matrix classes, \<open>iterableSetter\<close> or
  \<open>iterableSetterInternal\<close> in the vector classes); the fields it reads are inherited from
  base classes declared elsewhere.
\<close>

datatype UniformKind =
    FloatMatrix4x4Uniform
  | FloatMatrix4x3Uniform
  | IntegerVector3Uniform
  | UnsignedIntegerVector2Uniform
  | FloatVector2Uniform

record Uniform =
  kind :: UniformKind
  uniform_location :: nat
  transpose_flag :: bool
  sourceOffset :: "number option"
  sourceLength :: "number option"

definition iterableSetter :: "Uniform \<Rightarrow> number list \<Rightarrow> device \<Rightarrow> device" where
  "iterableSetter u v d =
     (case kind u of
        FloatMatrix4x4Uniform \<Rightarrow>
          issue (UniformMatrix4fv (uniform_location u) (transpose_flag u) v
                   (sourceOffset u) (sourceLength u)) d
      | FloatMatrix4x3Uniform \<Rightarrow>
          issue (UniformMatrix4x3fv (uniform_location u) (transpose_flag u) v
                   (sourceOffset u) (sourceLength u)) d
      | IntegerVector3Uniform \<Rightarrow>
          issue (Uniform3iv (uniform_location u) v (sourceOffset u) (sourceLength u)) d
      | UnsignedIntegerVector2Uniform \<Rightarrow>
          issue (Uniform2uiv (uniform_location u) v (sourceOffset u) (sourceLength u)) d
      | FloatVector2Uniform \<Rightarrow>
          issue (Uniform2fv (uniform_location u) v (sourceOffset u) (sourceLength u)) d)"

section \<open>Texture2D\<close>

datatype js_error = Error string

text \<open>
  \<open>TextureFormat\<close> and \<open>TextureDataType\<close> are enumerations of WebGL codes, so a member
  is a natural number; the private fields \<open>#type\<close> and \<open>#format\<close> may be undefined. A
  pixel source is identified by a natural number.
\<close>

record Texture2D =
  target :: nat
  texture :: nat
  lod :: number
  internalFormat :: nat
  private_type :: "nat option"
  private_format :: "nat option"
  width :: "number option"
  height :: "number option"
  pixels :: nat

definition Texture_bind :: "Texture2D \<Rightarrow> device \<Rightarrow> device" where
  "Texture_bind t d = issue (BindTexture (target t) (texture t)) d"

text \<open>The \<open>switch\<close> of the getter of \<open>type\<close>, with its \<open>default\<close> branch that throws.\<close>

definition type_switch :: "nat \<Rightarrow> js_error + nat" where
  "type_switch f =
     (if f = RGB \<or> f = RGBA \<or> f = LUMINANCE_ALPHA \<or> f = LUMINANCE \<or> f = ALPHA \<or>
         f = R8 \<or> f = R8UI \<or> f = RG8 \<or> f = RG8UI \<or> f = RGB8 \<or> f = SRGB8 \<or>
         f = RGB565 \<or> f = RGB8UI \<or> f = RGBA8 \<or> f = SRGB8_ALPHA8 \<or> f = RGB5_A1 \<or>
         f = RGBA4 \<or> f = RGBA8UI
      then Inr UNSIGNED_BYTE
      else if f = R16F \<or> f = R32F \<or> f = RG16F \<or> f = RG32F \<or> f = R11F_G11F_B10F \<or>
         f = RGB9_E5 \<or> f = RGB16F \<or> f = RGB32F \<or> f = RGBA16F \<or> f = RGBA32F
      then Inr FLOAT
      else if f = RGB10_A2
      then Inr UNSIGNED_INT_2_10_10_10_REV
      else Inl (Error ''Unset data type without default for selected format.''))"

text \<open>
  \<^verbatim>\<open>if (this.#type) { return this.#type; }\<close> tests truthiness: an undefined field
  and the number 0 both fall through to the \<open>switch\<close>.
\<close>

definition get_type :: "Texture2D \<Rightarrow> js_error + nat" where
  "get_type t =
     (case private_type t of
        Some ty \<Rightarrow> if ty \<noteq> 0 then Inr ty else type_switch (internalFormat t)
      | None \<Rightarrow> type_switch (internalFormat t))"

definition set_type :: "nat \<Rightarrow> Texture2D \<Rightarrow> Texture2D" where
  "set_type v t = t\<lparr>private_type := Some v\<rparr>"

definition format_switch :: "nat \<Rightarrow> nat" where
  "format_switch f =
     (if f = RGB \<or> f = RGB8 \<or> f = SRGB8 \<or> f = RGB565 \<or> f = R11F_G11F_B10F \<or>
         f = RGB9_E5 \<or> f = RGB16F \<or> f = RGB32F
      then RGB
      else if f = RGBA \<or> f = RGBA8 \<or> f = SRGB8_ALPHA8 \<or> f = RGB5_A1 \<or> f = RGB10_A2 \<or>
         f = RGBA4 \<or> f = RGBA16F \<or> f = RGBA32F
      then RGBA
      else if f = LUMINANCE_ALPHA then LUMINANCE_ALPHA
      else if f = LUMINANCE then LUMINANCE
      else if f = ALPHA then ALPHA
      else if f = R8 \<or> f = R16F \<or> f = R32F then RED
      else if f = R8UI then RED_INTEGER
      else if f = RG8 \<or> f = RG16F \<or> f = RG32F then RG
      else if f = RG8UI then RG_INTEGER
      else if f = RGB8UI then RGB_INTEGER
      else if f = RGBA8UI then RGBA_INTEGER
      else f)"

definition get_format :: "Texture2D \<Rightarrow> nat" where
  "get_format t =
     (case private_format t of
        Some fm \<Rightarrow> if fm \<noteq> 0 then fm else format_switch (internalFormat t)
      | None \<Rightarrow> format_switch (internalFormat t))"

text \<open>
  \<open>update\<close> returns nothing; the model returns \<open>Inl\<close> of the error when the getter of
  \<open>type\<close> throws while the arguments of \<open>texImage2D\<close> are evaluated, next to the device
  as the calls made until then have left it.
\<close>

definition update :: "number \<Rightarrow> Texture2D \<Rightarrow> device \<Rightarrow> (js_error + unit) \<times> device" where
  "update textureUnit t d =
     (let d1 = issue (ActiveTexture (real TEXTURE0 + textureUnit)) d;
          d2 = Texture_bind t d1
      in case (width t, height t) of
           (Some w, Some h) \<Rightarrow>
             (case get_type t of
                Inl e \<Rightarrow> (Inl e, d2)
              | Inr ty \<Rightarrow>
                  (Inr (),
                   issue (TexImage2D_sized (target t) (lod t) (internalFormat t) w h 0
                            (get_format t) ty (pixels t)) d2))
         | _ \<Rightarrow>
             (case get_type t of
                Inl e \<Rightarrow> (Inl e, d2)
              | Inr ty \<Rightarrow>
                  (Inr (),
                   issue (TexImage2D_unsized (target t) (lod t) (internalFormat t)
                            (get_format t) ty (pixels t)) d2)))"

section \<open>RenderingContext\<close>

text \<open>
  The context object holds the device and nothing else. Its properties that have both a
  getter and a setter are the members of \<open>slot\<close>; \<open>get_slot\<close> is the table of their
  getters. The wrappers the getters build around an answer (\<open>Rectangle\<close>, \<open>Color\<close>,
  \<open>Range\<close>, \<open>ColorMask\<close>) copy its numbers, so the model returns the answer itself.
\<close>

datatype slot =
    scissorBox | viewport | activeTextureUnit | blendColor
  | blendEquationRgb | blendEquationAlpha
  | blendFuncSrcRgb | blendFuncDstRgb | blendFuncSrcAlpha | blendFuncDstAlpha
  | clearColor | clearDepth | clearStencil | colorMask | cullFace
  | depthFunc | depthMask | depthRange
  | enableBlend | enableCullFace | enableDepthTest | enableDither
  | enablePolygonOffsetFill | enableSampleAlphaToCoverage | enableSampleCoverage
  | enableScissorTest | enableStencilTest | enableRasterizerDiscard
  | frontFace | generateMipmapHint | fragmentShaderDerivativeHint | lineWidth
  | packAlignment | unpackAlignment | unpackFlipY | unpackPremultiplyAlpha
  | unpackColorspaceConversion | packRowLength | packSkipPixels | packSkipRows
  | unpackRowLength | unpackImageHeight | unpackSkipPixels | unpackSkipRows
  | unpackSkipImages | polygonOffsetFactor | polygonOffsetUnits
  | sampleCoverageValue | sampleCoverageInvert
  | stencilFuncFront | stencilRefFront | stencilValueMaskFront
  | stencilFuncBack | stencilRefBack | stencilValueMaskBack
  | stencilMaskFront | stencilMaskBack
  | stencilFailFront | stencilZFailFront | stencilZPassFront
  | stencilFailBack | stencilZFailBack | stencilZPassBack

text \<open>
  \<^verbatim>\<open>this.gl.getParameter(WebGLConstant.ACTIVE_TEXTURE) - WebGLConstant.TEXTURE0\<close>: the
  device answers this parameter with a number; an answer of another shape is left as it is.
\<close>

definition minus_TEXTURE0 :: "gl_value \<Rightarrow> gl_value" where
  "minus_TEXTURE0 v = (case v of GLNumber n \<Rightarrow> GLNumber (n - real TEXTURE0) | _ \<Rightarrow> v)"

definition enabled_flag :: "nat \<Rightarrow> device \<Rightarrow> gl_value \<times> device" where
  "enabled_flag cap d = (case isEnabled cap d of (b, d1) \<Rightarrow> (GLBoolean b, d1))"

primrec get_slot :: "slot \<Rightarrow> device \<Rightarrow> gl_value \<times> device" where
  "get_slot scissorBox d = getParameter SCISSOR_BOX d"
| "get_slot viewport d = getParameter VIEWPORT d"
| "get_slot activeTextureUnit d =
     (case getParameter ACTIVE_TEXTURE d of (v, d1) \<Rightarrow> (minus_TEXTURE0 v, d1))"
| "get_slot blendColor d = getParameter BLEND_COLOR d"
| "get_slot blendEquationRgb d = getParameter BLEND_EQUATION_RGB d"
| "get_slot blendEquationAlpha d = getParameter BLEND_EQUATION_ALPHA d"
| "get_slot blendFuncSrcRgb d = getParameter BLEND_SRC_RGB d"
| "get_slot blendFuncDstRgb d = getParameter BLEND_DST_RGB d"
| "get_slot blendFuncSrcAlpha d = getParameter BLEND_SRC_ALPHA d"
| "get_slot blendFuncDstAlpha d = getParameter BLEND_DST_ALPHA d"
| "get_slot clearColor d = getParameter COLOR_CLEAR_VALUE d"
| "get_slot clearDepth d = getParameter DEPTH_CLEAR_VALUE d"
| "get_slot clearStencil d = getParameter STENCIL_CLEAR_VALUE d"
| "get_slot colorMask d = getParameter COLOR_WRITEMASK d"
| "get_slot cullFace d = getParameter CULL_FACE_MODE d"
| "get_slot depthFunc d = getParameter DEPTH_FUNC d"
| "get_slot depthMask d = getParameter DEPTH_WRITEMASK d"
| "get_slot depthRange d = getParameter DEPTH_RANGE d"
| "get_slot enableBlend d = enabled_flag BLEND d"
| "get_slot enableCullFace d = enabled_flag CULL_FACE d"
| "get_slot enableDepthTest d = enabled_flag DEPTH_TEST d"
| "get_slot enableDither d = enabled_flag DITHER d"
| "get_slot enablePolygonOffsetFill d = enabled_flag POLYGON_OFFSET_FILL d"
| "get_slot enableSampleAlphaToCoverage d = enabled_flag SAMPLE_ALPHA_TO_COVERAGE d"
| "get_slot enableSampleCoverage d = enabled_flag SAMPLE_COVERAGE d"
| "get_slot enableScissorTest d = enabled_flag SCISSOR_TEST d"
| "get_slot enableStencilTest d = enabled_flag STENCIL_TEST d"
| "get_slot enableRasterizerDiscard d = enabled_flag RASTERIZER_DISCARD d"
| "get_slot frontFace d = getParameter FRONT_FACE d"
| "get_slot generateMipmapHint d = getParameter GENERATE_MIPMAP_HINT d"
| "get_slot fragmentShaderDerivativeHint d = getParameter FRAGMENT_SHADER_DERIVATIVE_HINT d"
| "get_slot lineWidth d = getParameter LINE_WIDTH d"
| "get_slot packAlignment d = getParameter PACK_ALIGNMENT d"
| "get_slot unpackAlignment d = getParameter UNPACK_ALIGNMENT d"
| "get_slot unpackFlipY d = getParameter UNPACK_FLIP_Y_WEBGL d"
| "get_slot unpackPremultiplyAlpha d = getParameter UNPACK_PREMULTIPLY_ALPHA_WEBGL d"
| "get_slot unpackColorspaceConversion d = getParameter UNPACK_COLORSPACE_CONVERSION_WEBGL d"
| "get_slot packRowLength d = getParameter PACK_ROW_LENGTH d"
| "get_slot packSkipPixels d = getParameter PACK_SKIP_PIXELS d"
| "get_slot packSkipRows d = getParameter PACK_SKIP_ROWS d"
| "get_slot unpackRowLength d = getParameter UNPACK_ROW_LENGTH d"
| "get_slot unpackImageHeight d = getParameter UNPACK_IMAGE_HEIGHT d"
| "get_slot unpackSkipPixels d = getParameter UNPACK_SKIP_PIXELS d"
| "get_slot unpackSkipRows d = getParameter UNPACK_SKIP_ROWS d"
| "get_slot unpackSkipImages d = getParameter UNPACK_SKIP_IMAGES d"
| "get_slot polygonOffsetFactor d = getParameter POLYGON_OFFSET_FACTOR d"
| "get_slot polygonOffsetUnits d = getParameter POLYGON_OFFSET_UNITS d"
| "get_slot sampleCoverageValue d = getParameter SAMPLE_COVERAGE_VALUE d"
| "get_slot sampleCoverageInvert d = getParameter SAMPLE_COVERAGE_INVERT d"
| "get_slot stencilFuncFront d = getParameter STENCIL_FUNC d"
| "get_slot stencilRefFront d = getParameter STENCIL_REF d"
| "get_slot stencilValueMaskFront d = getParameter STENCIL_VALUE_MASK d"
| "get_slot stencilFuncBack d = getParameter STENCIL_BACK_FUNC d"
| "get_slot stencilRefBack d = getParameter STENCIL_BACK_REF d"
| "get_slot stencilValueMaskBack d = getParameter STENCIL_BACK_VALUE_MASK d"
| "get_slot stencilMaskFront d = getParameter STENCIL_WRITEMASK d"
| "get_slot stencilMaskBack d = getParameter STENCIL_BACK_WRITEMASK d"
| "get_slot stencilFailFront d = getParameter STENCIL_FAIL d"
| "get_slot stencilZFailFront d = getParameter STENCIL_PASS_DEPTH_FAIL d"
| "get_slot stencilZPassFront d = getParameter STENCIL_PASS_DEPTH_PASS d"
| "get_slot stencilFailBack d = getParameter STENCIL_BACK_FAIL d"
| "get_slot stencilZFailBack d = getParameter STENCIL_BACK_PASS_DEPTH_FAIL d"
| "get_slot stencilZPassBack d = getParameter STENCIL_BACK_PASS_DEPTH_PASS d"

text \<open>The setters of \<open>depthFunc\<close> and \<open>viewport\<close>.\<close>

definition set_depthFunc :: "gl_value \<Rightarrow> device \<Rightarrow> device" where
  "set_depthFunc v d = issue (DepthFunc v) d"

definition set_viewport :: "number \<times> number \<times> number \<times> number \<Rightarrow> device \<Rightarrow> device" where
  "set_viewport v d = (case v of (x, y, w, h) \<Rightarrow> issue (Viewport x y w h) d)"

text \<open>
  The setters of the stencil function, reference and masks. The arguments of the device
  call are evaluated from left to right, so the getters run in the order written.
\<close>

definition set_stencilFuncFront :: "gl_value \<Rightarrow> device \<Rightarrow> device" where
  "set_stencilFuncFront v d =
     (case get_slot stencilRefFront d of
        (r, d1) \<Rightarrow>
          (case get_slot stencilMaskFront d1 of
             (m, d2) \<Rightarrow> issue (StencilFuncSeparate FRONT v r m) d2))"

definition set_stencilRefFront :: "gl_value \<Rightarrow> device \<Rightarrow> device" where
  "set_stencilRefFront v d =
     (case get_slot stencilFuncFront d of
        (f, d1) \<Rightarrow>
          (case get_slot stencilMaskFront d1 of
             (m, d2) \<Rightarrow> issue (StencilFuncSeparate FRONT f v m) d2))"

definition set_stencilValueMaskFront :: "gl_value \<Rightarrow> device \<Rightarrow> device" where
  "set_stencilValueMaskFront v d =
     (case get_slot stencilFuncFront d of
        (f, d1) \<Rightarrow>
          (case get_slot stencilRefBack d1 of
             (r, d2) \<Rightarrow> issue (StencilFuncSeparate FRONT f r v) d2))"

definition set_stencilFuncBack :: "gl_value \<Rightarrow> device \<Rightarrow> device" where
  "set_stencilFuncBack v d =
     (case get_slot stencilRefBack d of
        (r, d1) \<Rightarrow>
          (case get_slot stencilValueMaskBack d1 of
             (m, d2) \<Rightarrow> issue (StencilFuncSeparate BACK v r m) d2))"

definition set_stencilRefBack :: "gl_value \<Rightarrow> device \<Rightarrow> device" where
  "set_stencilRefBack v d =
     (case get_slot stencilFuncBack d of
        (f, d1) \<Rightarrow>
          (case get_slot stencilValueMaskBack d1 of
             (m, d2) \<Rightarrow> issue (StencilFuncSeparate BACK f v m) d2))"

definition set_stencilValueMaskBack :: "gl_value \<Rightarrow> device \<Rightarrow> device" where
  "set_stencilValueMaskBack v d =
     (case get_slot stencilFuncBack d of
        (f, d1) \<Rightarrow>
          (case get_slot stencilRefBack d1 of
             (r, d2) \<Rightarrow> issue (StencilFuncSeparate BACK f r v) d2))"

definition set_stencilMaskFront :: "gl_value \<Rightarrow> device \<Rightarrow> device" where
  "set_stencilMaskFront v d = issue (StencilMaskSeparate FRONT v) d"

definition set_stencilMaskBack :: "gl_value \<Rightarrow> device \<Rightarrow> device" where
  "set_stencilMaskBack v d = issue (StencilMaskSeparate BACK v) d"

section \<open>Sample inputs\<close>

text \<open>A device that has seen no call and answers every query with zero or false.\<close>

definition silent_device :: device where
  "silent_device =
     \<lparr>parameter_answer = (\<lambda>h p. GLNumber 0),
      enabled_answer = (\<lambda>h c. False),
      location_answer = (\<lambda>h p n. 0),
      calls = []\<rparr>"

text \<open>
  A device whose front stencil reference is 5 and whose back stencil reference is 7, with
  the comparison \<open>ALWAYS\<close> and the mask 255 on both faces.
\<close>

definition stencil_device :: device where
  "stencil_device =
     \<lparr>parameter_answer =
        (\<lambda>h p. if p = STENCIL_REF then GLNumber 5
               else if p = STENCIL_BACK_REF then GLNumber 7
               else if p = STENCIL_FUNC \<or> p = STENCIL_BACK_FUNC then GLNumber (real ALWAYS)
               else GLNumber 255),
      enabled_answer = (\<lambda>h c. False),
      location_answer = (\<lambda>h p n. 0),
      calls = []\<rparr>"

definition sample_buffer :: Buffer where
  "sample_buffer = \<lparr>internal = 1\<rparr>"

definition sample_attribute :: Attribute where
  "sample_attribute =
     \<lparr>activeInfo = \<lparr>name = ''a_position'', info_size = 1, info_type = FLOAT\<rparr>,
      location = 0, enabledCache = Some False, valueCache = None\<rparr>"

definition sample_matrix_uniform :: Uniform where
  "sample_matrix_uniform =
     \<lparr>kind = FloatMatrix4x4Uniform, uniform_location = 2, transpose_flag = False,
      sourceOffset = None, sourceLength = None\<rparr>"

definition sample_texture :: Texture2D where
  "sample_texture =
     \<lparr>target = TEXTURE_2D, texture = 1, lod = 0, internalFormat = RGBA,
      private_type = None, private_format = None, width = None, height = None,
      pixels = 0\<rparr>"

section \<open>Properties of Attribute\<close>

lemma get_enabled_device: "snd (snd (get_enabled a d)) = d"
  by (simp add: get_enabled_def split: option.splits)

lemma set_enabled_cached:
  assumes "enabledCache a = Some c"
  shows "set_enabled b a d =
     (if b = c then (a, d)
      else (a\<lparr>enabledCache := Some b\<rparr>,
            issue (if b then EnableVertexAttribArray (location a)
                   else DisableVertexAttribArray (location a)) d))"
  using assms by (simp add: set_enabled_def get_enabled_def)

lemma set_enabled_True:
  "set_enabled True a d =
     (a\<lparr>enabledCache := Some True\<rparr>,
      if enabledCache a = Some True then d
      else issue (EnableVertexAttribArray (location a)) d)"
proof (cases "enabledCache a")
  case None
  then show ?thesis by (simp add: set_enabled_def get_enabled_def)
next
  case (Some c)
  then show ?thesis by (cases c) (simp_all add: set_enabled_cached)
qed

lemma set_value_result:
  "set_value v a d =
     (a\<lparr>enabledCache := Some True, valueCache := Some (realValue v)\<rparr>,
      d\<lparr>calls := calls d @
         (if enabledCache a = Some True then []
          else [EnableVertexAttribArray (location a)]) @
         [BindBuffer ARRAY_BUFFER (internal (buffer (realValue v))),
          VertexAttribPointer (location a) (realValue v)]\<rparr>)"
  by (simp add: set_value_def set_enabled_True Buffer_bind_def setterInternal_def
      issue_def Let_def)

text \<open>
  C1. When a flag is cached, setting \<open>enabled\<close> to that flag issues no device call and
  leaves the attribute as it is; setting it to the opposite flag issues exactly one call,
  \<open>enableVertexAttribArray\<close> for true and \<open>disableVertexAttribArray\<close> for false, at the
  attribute's location, and caches the new flag; reading \<open>enabled\<close> returns the cached flag
  and leaves the device untouched.
\<close>

theorem C1_enabled_cache:
  assumes "enabledCache a = Some c"
  shows "set_enabled b a d =
       (if b = c then (a, d)
        else (a\<lparr>enabledCache := Some b\<rparr>,
              d\<lparr>calls := calls d @
                 [if b then EnableVertexAttribArray (location a)
                  else DisableVertexAttribArray (location a)]\<rparr>)) \<and>
     get_enabled a d = (c, a, d)"
  using assms by (simp add: set_enabled_cached issue_def get_enabled_def)

theorem C1_enabled_cache_witness:
  "enabledCache sample_attribute = Some False \<and>
   set_enabled False sample_attribute silent_device = (sample_attribute, silent_device) \<and>
   set_enabled True sample_attribute silent_device =
     (sample_attribute\<lparr>enabledCache := Some True\<rparr>,
      silent_device\<lparr>calls := [EnableVertexAttribArray 0]\<rparr>) \<and>
   get_enabled sample_attribute silent_device = (False, sample_attribute, silent_device)"
proof -
  have h: "enabledCache sample_attribute = Some False"
    by (simp add: sample_attribute_def)
  show ?thesis
    using h C1_enabled_cache [OF h, of False silent_device]
      C1_enabled_cache [OF h, of True silent_device]
    by (simp add: sample_attribute_def silent_device_def)
qed

text \<open>
  C9. The first read of \<open>enabled\<close> on a freshly constructed attribute returns false, seeds
  the cache with false and leaves the device as the constructor left it: no query is made.
\<close>

theorem C9_fresh_enabled:
  "get_enabled (fst (Attribute_new program info d)) (snd (Attribute_new program info d)) =
     (False,
      (fst (Attribute_new program info d))\<lparr>enabledCache := Some False\<rparr>,
      snd (Attribute_new program info d))"
  by (simp add: Attribute_new_def getAttribLocation_def get_enabled_def)

text \<open>
  C2. Every assignment to \<open>value\<close> turns \<open>enabled\<close> on (one \<open>enableVertexAttribArray\<close>
  unless true is already cached), then binds the buffer to \<open>ARRAY_BUFFER\<close>, then issues
  the pointer call for the attribute's location, and caches the value. The pointer call
  does not depend on the cached value: repeating the assignment issues the bind and the
  pointer call again, so each assignment adds exactly one pointer call.
\<close>

theorem C2_value_assignment:
  "set_value v a d =
     (a\<lparr>enabledCache := Some True, valueCache := Some (realValue v)\<rparr>,
      d\<lparr>calls := calls d @
         (if enabledCache a = Some True then []
          else [EnableVertexAttribArray (location a)]) @
         [BindBuffer ARRAY_BUFFER (internal (buffer (realValue v))),
          VertexAttribPointer (location a) (realValue v)]\<rparr>) \<and>
   set_value v (fst (set_value v a d)) (snd (set_value v a d)) =
     (fst (set_value v a d),
      (snd (set_value v a d))\<lparr>calls := calls (snd (set_value v a d)) @
         [BindBuffer ARRAY_BUFFER (internal (buffer (realValue v))),
          VertexAttribPointer (location a) (realValue v)]\<rparr>) \<and>
   length (filter is_pointer_call (calls (snd (set_value v a d)))) =
     length (filter is_pointer_call (calls d)) + 1 \<and>
   length (filter is_pointer_call
       (calls (snd (set_value v (fst (set_value v a d)) (snd (set_value v a d)))))) =
     length (filter is_pointer_call (calls d)) + 2"
  by (simp add: set_value_result is_pointer_call_def)

text \<open>
  C7, as the code has it. Reading \<open>value\<close> after an assignment returns what the setter
  cached and leaves the device untouched. The setter caches the descriptor it built: for an
  \<open>AttributeValue\<close> that is the assigned value, for a bare \<open>Buffer\<close> it is the wrapper
  \<^verbatim>\<open>{ buffer: value }\<close>.
\<close>

theorem C7_value_read_back:
  "get_value (fst (set_value v a d)) (snd (set_value v a d)) =
     (Some (realValue v), snd (set_value v a d)) \<and>
   realValue (Described av) = av \<and>
   realValue (Bare b) =
     \<lparr>buffer = b, components = None, data_type = None, normalized = None,
      stride = None, offset = None\<rparr>"
  by (simp add: set_value_result get_value_def realValue_def)

text \<open>
  The claim C7 as it is written fails for a bare buffer: the value read back is the
  wrapper, not the buffer that was assigned.
\<close>

theorem C7_bare_buffer_counterexample:
  "map_option Described
     (fst (get_value
        (fst (set_value (Bare sample_buffer) sample_attribute silent_device))
        (snd (set_value (Bare sample_buffer) sample_attribute silent_device)))) \<noteq>
   Some (Bare sample_buffer)"
  by (simp add: set_value_result get_value_def realValue_def)

section \<open>Properties of the uniforms\<close>

text \<open>
  C5. The iterable setter of each uniform class issues exactly one device call, to the
  entry point of that class, with the uniform's location, the transpose flag in the
  matrix classes, the assigned value, and the source offset and length.
\<close>

theorem C5_one_matching_call:
  "iterableSetter u v d =
     d\<lparr>calls := calls d @
        [case kind u of
           FloatMatrix4x4Uniform \<Rightarrow>
             UniformMatrix4fv (uniform_location u) (transpose_flag u) v
               (sourceOffset u) (sourceLength u)
         | FloatMatrix4x3Uniform \<Rightarrow>
             UniformMatrix4x3fv (uniform_location u) (transpose_flag u) v
               (sourceOffset u) (sourceLength u)
         | IntegerVector3Uniform \<Rightarrow>
             Uniform3iv (uniform_location u) v (sourceOffset u) (sourceLength u)
         | UnsignedIntegerVector2Uniform \<Rightarrow>
             Uniform2uiv (uniform_location u) v (sourceOffset u) (sourceLength u)
         | FloatVector2Uniform \<Rightarrow>
             Uniform2fv (uniform_location u) v (sourceOffset u) (sourceLength u)]\<rparr> \<and>
   length (calls (iterableSetter u v d)) = length (calls d) + 1"
  by (cases "kind u") (simp_all add: iterableSetter_def issue_def)

text \<open>
  C6, as the code has it. The setters of the two matrix classes do not look at the length
  of the sequence: for a sequence of any length, a multiple of rows times columns or not,
  they issue their one device call with that sequence, and they have no path that raises.
\<close>

theorem C6_matrix_no_length_check:
  "iterableSetter (u\<lparr>kind := FloatMatrix4x4Uniform\<rparr>) v d =
     d\<lparr>calls := calls d @
        [UniformMatrix4fv (uniform_location u) (transpose_flag u) v
           (sourceOffset u) (sourceLength u)]\<rparr> \<and>
   iterableSetter (u\<lparr>kind := FloatMatrix4x3Uniform\<rparr>) v d =
     d\<lparr>calls := calls d @
        [UniformMatrix4x3fv (uniform_location u) (transpose_flag u) v
           (sourceOffset u) (sourceLength u)]\<rparr>"
  by (simp add: iterableSetter_def issue_def)

text \<open>
  The claim C6 as it is written fails: a sequence of 15 numbers, not a multiple of 16, is
  passed to \<open>uniformMatrix4fv\<close> by the 4x4 class.
\<close>

theorem C6_length_15_counterexample:
  "length (replicate 15 (0::real)) mod (4 * 4) \<noteq> 0 \<and>
   calls (iterableSetter sample_matrix_uniform (replicate 15 0) silent_device) =
     [UniformMatrix4fv 2 False (replicate 15 0) None None] \<and>
   calls (iterableSetter sample_matrix_uniform (replicate 15 0) silent_device) \<noteq>
     calls silent_device"
  by (simp add: iterableSetter_def issue_def sample_matrix_uniform_def silent_device_def)

section \<open>Properties of Texture2D\<close>

lemmas texture_formats =
  RGB_def RGBA_def LUMINANCE_ALPHA_def LUMINANCE_def ALPHA_def R8_def R8UI_def RG8_def
  RG8UI_def RGB8_def SRGB8_def RGB565_def RGB8UI_def RGBA8_def SRGB8_ALPHA8_def
  RGB5_A1_def RGBA4_def RGBA8UI_def R16F_def R32F_def RG16F_def RG32F_def
  R11F_G11F_B10F_def RGB9_E5_def RGB16F_def RGB32F_def RGBA16F_def RGBA32F_def
  RGB10_A2_def RED_def RED_INTEGER_def RG_def RG_INTEGER_def RGB_INTEGER_def
  RGBA_INTEGER_def

lemma type_switch_unsigned_byte:
  "f \<in> {RGB, RGBA, LUMINANCE_ALPHA, LUMINANCE, ALPHA, R8, R8UI, RG8, RG8UI, RGB8, SRGB8,
         RGB565, RGB8UI, RGBA8, SRGB8_ALPHA8, RGB5_A1, RGBA4, RGBA8UI} \<Longrightarrow>
   type_switch f = Inr UNSIGNED_BYTE"
  by (auto simp add: type_switch_def)

lemma type_switch_float:
  "f \<in> {R16F, R32F, RG16F, RG32F, R11F_G11F_B10F, RGB9_E5, RGB16F, RGB32F, RGBA16F,
         RGBA32F} \<Longrightarrow>
   type_switch f = Inr FLOAT"
  unfolding type_switch_def texture_formats by auto

lemma type_switch_packed:
  "type_switch RGB10_A2 = Inr UNSIGNED_INT_2_10_10_10_REV"
  unfolding type_switch_def texture_formats by simp

lemma type_switch_default:
  "f \<notin> {RGB, RGBA, LUMINANCE_ALPHA, LUMINANCE, ALPHA, R8, R8UI, RG8, RG8UI, RGB8, SRGB8,
         RGB565, RGB8UI, RGBA8, SRGB8_ALPHA8, RGB5_A1, RGBA4, RGBA8UI,
         R16F, R32F, RG16F, RG32F, R11F_G11F_B10F, RGB9_E5, RGB16F, RGB32F, RGBA16F,
         RGBA32F, RGB10_A2} \<Longrightarrow>
   type_switch f = Inl (Error ''Unset data type without default for selected format.'')"
  by (simp add: type_switch_def)

lemma update_result:
  "update textureUnit t d =
     (case get_type t of
        Inl e \<Rightarrow>
          (Inl e,
           d\<lparr>calls := calls d @
              [ActiveTexture (real TEXTURE0 + textureUnit),
               BindTexture (target t) (texture t)]\<rparr>)
      | Inr ty \<Rightarrow>
          (Inr (),
           d\<lparr>calls := calls d @
              [ActiveTexture (real TEXTURE0 + textureUnit),
               BindTexture (target t) (texture t),
               (case (width t, height t) of
                  (Some w, Some h) \<Rightarrow>
                    TexImage2D_sized (target t) (lod t) (internalFormat t) w h 0
                      (get_format t) ty (pixels t)
                | _ \<Rightarrow>
                    TexImage2D_unsized (target t) (lod t) (internalFormat t)
                      (get_format t) ty (pixels t))]\<rparr>))"
  by (simp add: update_def Texture_bind_def issue_def Let_def
      split: option.splits sum.splits)

text \<open>
  C10. While \<open>type\<close> has not been set, the getter answers from \<open>internalFormat\<close> alone:
  \<open>UNSIGNED_BYTE\<close> for the eighteen formats of the first group, \<open>FLOAT\<close> for the ten of
  the second, \<open>UNSIGNED_INT_2_10_10_10_REV\<close> for \<open>RGB10_A2\<close>, and an error for every other
  format. Once \<open>type\<close> has been set the getter returns the set value whatever the
  internal format is; a data type is a WebGL code and so is not zero.
\<close>

theorem C10_type_getter:
  "(private_type t = None \<and>
    internalFormat t \<in>
      {RGB, RGBA, LUMINANCE_ALPHA, LUMINANCE, ALPHA, R8, R8UI, RG8, RG8UI, RGB8, SRGB8,
       RGB565, RGB8UI, RGBA8, SRGB8_ALPHA8, RGB5_A1, RGBA4, RGBA8UI} \<longrightarrow>
    get_type t = Inr UNSIGNED_BYTE) \<and>
   (private_type t = None \<and>
    internalFormat t \<in>
      {R16F, R32F, RG16F, RG32F, R11F_G11F_B10F, RGB9_E5, RGB16F, RGB32F, RGBA16F,
       RGBA32F} \<longrightarrow>
    get_type t = Inr FLOAT) \<and>
   (private_type t = None \<and> internalFormat t = RGB10_A2 \<longrightarrow>
    get_type t = Inr UNSIGNED_INT_2_10_10_10_REV) \<and>
   (private_type t = None \<and>
    internalFormat t \<notin>
      {RGB, RGBA, LUMINANCE_ALPHA, LUMINANCE, ALPHA, R8, R8UI, RG8, RG8UI, RGB8, SRGB8,
       RGB565, RGB8UI, RGBA8, SRGB8_ALPHA8, RGB5_A1, RGBA4, RGBA8UI,
       R16F, R32F, RG16F, RG32F, R11F_G11F_B10F, RGB9_E5, RGB16F, RGB32F, RGBA16F,
       RGBA32F, RGB10_A2} \<longrightarrow>
    get_type t =
      Inl (Error ''Unset data type without default for selected format.'')) \<and>
   (v \<noteq> 0 \<longrightarrow> get_type (set_type v t) = Inr v)"
proof (intro conjI impI)
  assume "private_type t = None \<and>
    internalFormat t \<in>
      {RGB, RGBA, LUMINANCE_ALPHA, LUMINANCE, ALPHA, R8, R8UI, RG8, RG8UI, RGB8, SRGB8,
       RGB565, RGB8UI, RGBA8, SRGB8_ALPHA8, RGB5_A1, RGBA4, RGBA8UI}"
  then show "get_type t = Inr UNSIGNED_BYTE"
    using type_switch_unsigned_byte [of "internalFormat t"] by (simp add: get_type_def)
next
  assume "private_type t = None \<and>
    internalFormat t \<in>
      {R16F, R32F, RG16F, RG32F, R11F_G11F_B10F, RGB9_E5, RGB16F, RGB32F, RGBA16F,
       RGBA32F}"
  then show "get_type t = Inr FLOAT"
    using type_switch_float [of "internalFormat t"] by (simp add: get_type_def)
next
  assume "private_type t = None \<and> internalFormat t = RGB10_A2"
  then show "get_type t = Inr UNSIGNED_INT_2_10_10_10_REV"
    by (simp add: get_type_def type_switch_packed)
next
  assume "private_type t = None \<and>
    internalFormat t \<notin>
      {RGB, RGBA, LUMINANCE_ALPHA, LUMINANCE, ALPHA, R8, R8UI, RG8, RG8UI, RGB8, SRGB8,
       RGB565, RGB8UI, RGBA8, SRGB8_ALPHA8, RGB5_A1, RGBA4, RGBA8UI,
       R16F, R32F, RG16F, RG32F, R11F_G11F_B10F, RGB9_E5, RGB16F, RGB32F, RGBA16F,
       RGBA32F, RGB10_A2}"
  then show "get_type t =
      Inl (Error ''Unset data type without default for selected format.'')"
    using type_switch_default [of "internalFormat t"] by (simp add: get_type_def)
next
  assume "v \<noteq> 0"
  then show "get_type (set_type v t) = Inr v"
    by (simp add: get_type_def set_type_def)
qed

theorem C10_type_getter_witness:
  "get_type (sample_texture\<lparr>internalFormat := RGBA\<rparr>) = Inr UNSIGNED_BYTE \<and>
   get_type (sample_texture\<lparr>internalFormat := RGB8\<rparr>) = Inr UNSIGNED_BYTE \<and>
   get_type (sample_texture\<lparr>internalFormat := R32F\<rparr>) = Inr FLOAT \<and>
   get_type (sample_texture\<lparr>internalFormat := RGBA16F\<rparr>) = Inr FLOAT \<and>
   get_type (sample_texture\<lparr>internalFormat := RGB10_A2\<rparr>) =
     Inr UNSIGNED_INT_2_10_10_10_REV \<and>
   get_type (sample_texture\<lparr>internalFormat := RED\<rparr>) =
     Inl (Error ''Unset data type without default for selected format.'') \<and>
   FLOAT \<noteq> 0 \<and>
   get_type (set_type FLOAT (sample_texture\<lparr>internalFormat := RED\<rparr>)) = Inr FLOAT"
  using C10_type_getter [of "sample_texture\<lparr>internalFormat := RGBA\<rparr>" FLOAT]
    C10_type_getter [of "sample_texture\<lparr>internalFormat := RGB8\<rparr>" FLOAT]
    C10_type_getter [of "sample_texture\<lparr>internalFormat := R32F\<rparr>" FLOAT]
    C10_type_getter [of "sample_texture\<lparr>internalFormat := RGBA16F\<rparr>" FLOAT]
    C10_type_getter [of "sample_texture\<lparr>internalFormat := RGB10_A2\<rparr>" FLOAT]
    C10_type_getter [of "sample_texture\<lparr>internalFormat := RED\<rparr>" FLOAT]
  unfolding sample_texture_def texture_formats FLOAT_def
  by simp

text \<open>
  C8, as the code has it. \<open>update\<close> first makes the given unit the active one, then binds
  the texture to its target. When the getter of \<open>type\<close> yields a data type it then issues
  exactly one \<open>texImage2D\<close> call, the sized form when width and height are both set and
  the unsized form otherwise; when the getter throws, \<open>update\<close> throws after the bind and
  issues no upload.
\<close>

theorem C8_update:
  "update textureUnit t d =
     (case get_type t of
        Inl e \<Rightarrow>
          (Inl e,
           d\<lparr>calls := calls d @
              [ActiveTexture (real TEXTURE0 + textureUnit),
               BindTexture (target t) (texture t)]\<rparr>)
      | Inr ty \<Rightarrow>
          (Inr (),
           d\<lparr>calls := calls d @
              [ActiveTexture (real TEXTURE0 + textureUnit),
               BindTexture (target t) (texture t),
               (case (width t, height t) of
                  (Some w, Some h) \<Rightarrow>
                    TexImage2D_sized (target t) (lod t) (internalFormat t) w h 0
                      (get_format t) ty (pixels t)
                | _ \<Rightarrow>
                    TexImage2D_unsized (target t) (lod t) (internalFormat t)
                      (get_format t) ty (pixels t))]\<rparr>)) \<and>
   length (filter is_upload (calls (snd (update textureUnit t d)))) =
     length (filter is_upload (calls d)) + (case get_type t of Inl e \<Rightarrow> 0 | Inr ty \<Rightarrow> 1)"
  by (simp add: update_result is_upload_def split: sum.splits option.splits)

text \<open>
  The claim C8 as it is written fails for a texture whose type is unset and whose internal
  format has no default: \<open>update\<close> throws after the bind, and no upload is issued.
\<close>

theorem C8_no_upload_counterexample:
  "update 0 (sample_texture\<lparr>internalFormat := RED\<rparr>) silent_device =
     (Inl (Error ''Unset data type without default for selected format.''),
      silent_device\<lparr>calls := [ActiveTexture 33984, BindTexture TEXTURE_2D 1]\<rparr>) \<and>
   filter is_upload
     (calls (snd (update 0 (sample_texture\<lparr>internalFormat := RED\<rparr>) silent_device))) = []"
  unfolding update_result get_type_def type_switch_def sample_texture_def texture_formats
  by (simp add: silent_device_def is_upload_def TEXTURE0_def)

section \<open>Properties of RenderingContext\<close>

lemma getParameter_device: "snd (getParameter p d) = issue (GetParameter p) d"
  by (simp add: getParameter_def)

lemma enabled_flag_device: "snd (enabled_flag c d) = issue (IsEnabled c) d"
  by (simp add: enabled_flag_def isEnabled_def)

lemma get_slot_device:
  "(\<exists>p. snd (get_slot s d) = issue (GetParameter p) d) \<or>
   (\<exists>c. snd (get_slot s d) = issue (IsEnabled c) d)"
  by (cases s)
    (auto simp add: getParameter_def enabled_flag_def isEnabled_def split: prod.splits)

lemma queries_issue:
  "queries (issue c d) = queries d + (if is_query c then 1 else 0)"
  by (simp add: queries_def issue_def)

lemma get_slot_queries: "queries (snd (get_slot s d)) = queries d + 1"
  using get_slot_device [of s d] by (auto simp add: queries_issue is_query_def)

text \<open>
  C4, as the code has it. The context keeps no cache: every read of a getter, the first
  and each later one, issues exactly one device query (\<open>getParameter\<close> or \<open>isEnabled\<close>)
  and nothing else, so two consecutive reads issue two queries; a read that follows a
  write through the setter of \<open>depthFunc\<close> or \<open>viewport\<close> queries the device again.
\<close>

theorem C4_getters_always_query:
  "(\<exists>q. is_query q \<and> snd (get_slot s d) = d\<lparr>calls := calls d @ [q]\<rparr>) \<and>
   queries (snd (get_slot s d)) = queries d + 1 \<and>
   queries (snd (get_slot s (snd (get_slot s d)))) = queries d + 2 \<and>
   queries (snd (get_slot depthFunc (set_depthFunc v (snd (get_slot depthFunc d))))) =
     queries d + 2 \<and>
   queries (snd (get_slot viewport (set_viewport r (snd (get_slot viewport d))))) =
     queries d + 2"
proof -
  have "\<exists>q. is_query q \<and> snd (get_slot s d) = d\<lparr>calls := calls d @ [q]\<rparr>"
    using get_slot_device [of s d]
  proof (elim disjE exE)
    fix p
    assume "snd (get_slot s d) = issue (GetParameter p) d"
    then show ?thesis
      by (intro exI [of _ "GetParameter p"]) (simp add: issue_def is_query_def)
  next
    fix c
    assume "snd (get_slot s d) = issue (IsEnabled c) d"
    then show ?thesis
      by (intro exI [of _ "IsEnabled c"]) (simp add: issue_def is_query_def)
  qed
  moreover have "queries (set_depthFunc v d') = queries d'" for d'
    by (simp add: set_depthFunc_def queries_issue is_query_def)
  moreover have "queries (set_viewport r d') = queries d'" for d'
    by (simp add: set_viewport_def queries_issue is_query_def split: prod.splits)
  ultimately show ?thesis by (simp add: get_slot_queries del: get_slot.simps)
qed

text \<open>
  The claim C4 as it is written fails: two consecutive reads of \<open>depthFunc\<close>, with no
  write between them, issue two device queries.
\<close>

theorem C4_two_reads_counterexample:
  "queries silent_device = 0 \<and>
   calls (snd (get_slot depthFunc (snd (get_slot depthFunc silent_device)))) =
     [GetParameter DEPTH_FUNC, GetParameter DEPTH_FUNC] \<and>
   \<not> queries (snd (get_slot depthFunc (snd (get_slot depthFunc silent_device)))) \<le> 1"
  by (simp add: getParameter_def issue_def queries_def is_query_def silent_device_def)

text \<open>
  The setter of \<open>stencilValueMaskFront\<close> reads the function of the front face and the
  reference of the back face, and passes both to the call for the front face.
\<close>

lemma set_stencilValueMaskFront_calls:
  "calls (set_stencilValueMaskFront m d) =
     calls d @
       [GetParameter STENCIL_FUNC, GetParameter STENCIL_BACK_REF,
        StencilFuncSeparate FRONT
          (parameter_answer d (calls d) STENCIL_FUNC)
          (parameter_answer d (calls d @ [GetParameter STENCIL_FUNC]) STENCIL_BACK_REF)
          m]"
  by (simp add: set_stencilValueMaskFront_def getParameter_def issue_def)

lemma set_stencilFuncFront_calls:
  "calls (set_stencilFuncFront f d) =
     calls d @
       [GetParameter STENCIL_REF, GetParameter STENCIL_WRITEMASK,
        StencilFuncSeparate FRONT f
          (parameter_answer d (calls d) STENCIL_REF)
          (parameter_answer d (calls d @ [GetParameter STENCIL_REF]) STENCIL_WRITEMASK)]"
  by (simp add: set_stencilFuncFront_def getParameter_def issue_def)

text \<open>
  C3. On a device whose front stencil reference is 5 and whose back stencil reference is 7,
  assigning 15 to \<open>stencilValueMaskFront\<close> issues the front-face call with the reference
  7: the reference of the front face is not the one written back.
\<close>

theorem C3_front_value_mask_writes_back_reference:
  "fst (get_slot stencilRefFront stencil_device) = GLNumber 5 \<and>
   fst (get_slot stencilRefBack stencil_device) = GLNumber 7 \<and>
   calls (set_stencilValueMaskFront (GLNumber 15) stencil_device) =
     [GetParameter STENCIL_FUNC, GetParameter STENCIL_BACK_REF,
      StencilFuncSeparate FRONT (GLNumber (real ALWAYS)) (GLNumber 7) (GLNumber 15)]"
  by (simp add: set_stencilValueMaskFront_def getParameter_def issue_def
      stencil_device_def STENCIL_REF_def STENCIL_BACK_REF_def STENCIL_FUNC_def
      STENCIL_BACK_FUNC_def)

end
